theory Spec2Isabelle
  imports Complex_Main "HOL-Library.Word"
begin

section \<open>The G38.2 probing cycle of TinyG2 and the planner buffer pool\<close>

text \<open>
  A shallow embedding of \<^verbatim>\<open>cycle_probing.cpp\<close> and of the pool size of
  \<^verbatim>\<open>planner.h\<close>. The two singletons \<^verbatim>\<open>cm\<close> and \<^verbatim>\<open>pb\<close>
  are fields of one record that every function takes and returns. Calls into
  collaborators whose code is elsewhere (planner, spindle, GPIO, reports) are
  appended to a trace, in call order. A C \<^verbatim>\<open>float\<close> is a real number:
  rounding is not modelled and no property below depends on it.
\<close>

subsection \<open>Enumerations\<close>

text \<open>
  Modelled from the spec: \<^verbatim>\<open>tinyg2.h\<close> and \<^verbatim>\<open>canonical_machine.h\<close>, which
  declare the status codes and the enumerations of the canonical machine, are
  not among the sources. The statuses are the six the probing cycle returns
  (the request answers ok, feed rate missing or axis missing; the callback
  answers no-op, in-progress, ok or probe cycle failed). Of the other
  enumerations the source names the probe states, \<^verbatim>\<open>MACHINE_CYCLE\<close>,
  \<^verbatim>\<open>CYCLE_PROBE\<close>, \<^verbatim>\<open>ABSOLUTE_MODE\<close>, \<^verbatim>\<open>ABSOLUTE_COORDS\<close> and the
  six axes; the remaining constructors stand for the values a machine can hold
  before a probe is requested.
\<close>

datatype stat_t =
    STAT_OK
  | STAT_EAGAIN
  | STAT_NOOP
  | STAT_PROBE_CYCLE_FAILED
  | STAT_GCODE_FEEDRATE_NOT_SPECIFIED
  | STAT_GCODE_AXIS_IS_MISSING

datatype axis = AXIS_X | AXIS_Y | AXIS_Z | AXIS_A | AXIS_B | AXIS_C

text \<open>The axes in index order, for the loops \<^verbatim>\<open>for (axis=0; axis<AXES; axis++)\<close>.\<close>

definition AXES :: "axis list" where
  "AXES = [AXIS_X, AXIS_Y, AXIS_Z, AXIS_A, AXIS_B, AXIS_C]"

text \<open>The axes of the loop \<^verbatim>\<open>for (axis=AXIS_A; axis<AXES; axis++)\<close>.\<close>

definition ROTARY_AXES :: "axis list" where
  "ROTARY_AXES = [AXIS_A, AXIS_B, AXIS_C]"

fun axis_number :: "axis \<Rightarrow> int" where
  "axis_number AXIS_X = 0"
| "axis_number AXIS_Y = 1"
| "axis_number AXIS_Z = 2"
| "axis_number AXIS_A = 3"
| "axis_number AXIS_B = 4"
| "axis_number AXIS_C = 5"

datatype cmProbeState = PROBE_FAILED | PROBE_SUCCEEDED | PROBE_WAITING

datatype cmMachineState = MACHINE_READY | MACHINE_PROGRAM_STOP | MACHINE_CYCLE

datatype cmCycleState = CYCLE_OFF | CYCLE_MACHINING | CYCLE_PROBE | CYCLE_HOMING | CYCLE_JOG

datatype cmCoordSystem = ABSOLUTE_COORDS | G54 | G55 | G56 | G57 | G58 | G59

datatype cmDistanceMode = ABSOLUTE_MODE | INCREMENTAL_MODE

text \<open>
  The function pointer \<^verbatim>\<open>pb.func\<close>. The singleton is a static, so the pointer
  is null until \<^verbatim>\<open>cm_straight_probe\<close> binds it.
\<close>

datatype pbFunc =
    FUNC_NULL
  | PROBING_INIT
  | PROBING_START
  | PROBING_BACKOFF
  | PROBING_FINISH
  | PROBING_FINALIZE_EXIT

text \<open>
  Modelled from the spec: \<^verbatim>\<open>gpio.h\<close> is not among the sources. The switch
  collaborator answers active or inactive; the source reads the answer into an
  \<^verbatim>\<open>int8_t\<close>, says that \<^verbatim>\<open>INPUT_INACTIVE\<close> means the switch is open,
  and compares the same reading with \<^verbatim>\<open>true\<close>, which is 1.
\<close>

definition INPUT_INACTIVE :: int where
  "INPUT_INACTIVE = 0"

definition INPUT_ACTIVE :: int where
  "INPUT_ACTIVE = 1"

subsection \<open>Calls into collaborators\<close>

datatype event =
    GPIO_READ_INPUT nat
  | GPIO_SET_PROBING_MODE nat bool
  | CM_STRAIGHT_FEED "axis \<Rightarrow> real" "axis \<Rightarrow> bool"
  | CM_QUEUE_FLUSH
  | CM_SPINDLE_OPTIONAL_PAUSE bool
  | CM_SPINDLE_RESUME
  | CM_SET_MOTION_MODE_CANCEL
  | CM_CANNED_CYCLE_END
  | NV_RESET_NV_LIST
  | NV_MESSAGE_INVALID_DESTINATION
  | NV_MESSAGE_AXIS_CANNOT_MOVE int
  | NV_PRINT_LIST stat_t
  | PRINTF_PRB cmProbeState "(char \<times> real) list"

subsection \<open>The machine: \<^verbatim>\<open>cm\<close>, \<^verbatim>\<open>pb\<close> and what the collaborators report\<close>

record machine =
  cm_feed_rate :: real
  cm_probe_state :: cmProbeState
  cm_machine_state :: cmMachineState
  cm_cycle_state :: cmCycleState
  cm_coord_system :: cmCoordSystem
  cm_distance_mode :: cmDistanceMode
  cm_jerk_max :: "axis \<Rightarrow> real"
  cm_jerk_high :: "axis \<Rightarrow> real"
  cm_probe_results :: "axis \<Rightarrow> real"
  pb_func :: pbFunc
  pb_probe_input :: nat
  pb_saved_distance_mode :: cmDistanceMode
  pb_saved_coord_system :: cmCoordSystem
  pb_saved_jerk :: "axis \<Rightarrow> real"
  pb_target :: "axis \<Rightarrow> real"
  pb_flags :: "axis \<Rightarrow> bool"
  absolute_position :: "axis \<Rightarrow> real"
  runtime_busy :: bool
  gpio_input :: "nat \<Rightarrow> int"
  gpio_probing_mode :: "nat \<Rightarrow> bool"
  encoder_snapshot :: "real list"
  trace :: "event list"

definition emit :: "event \<Rightarrow> machine \<Rightarrow> machine" where
  "emit e s = s\<lparr>trace := trace s @ [e]\<rparr>"

text \<open>The calls a function added to the trace of the machine it started from.\<close>

definition emitted :: "machine \<Rightarrow> machine \<Rightarrow> event list" where
  "emitted s s' = drop (length (trace s)) (trace s')"

subsection \<open>Collaborators\<close>

text \<open>
  Modelled from the spec: \<^verbatim>\<open>canonical_machine.cpp\<close>, \<^verbatim>\<open>gpio.cpp\<close>,
  \<^verbatim>\<open>spindle.cpp\<close>, \<^verbatim>\<open>report.cpp\<close> and \<^verbatim>\<open>util.h\<close> are not among the
  sources. The getters read and the setters write the value the spec says is
  snapshot and restored (coordinate system, distance mode, per-axis jerk); the
  switch collaborator reads an input and sets its probing mode; the runtime
  reports busy or idle; ending the canned cycle ends the cycle, so the cycle
  state leaves \<^verbatim>\<open>CYCLE_PROBE\<close>. Every other call is recorded in the trace
  and changes nothing else.
\<close>

definition cm_get_coord_system :: "machine \<Rightarrow> cmCoordSystem" where
  "cm_get_coord_system s = cm_coord_system s"

definition cm_get_distance_mode :: "machine \<Rightarrow> cmDistanceMode" where
  "cm_get_distance_mode s = cm_distance_mode s"

definition cm_set_coord_system :: "cmCoordSystem \<Rightarrow> machine \<Rightarrow> machine" where
  "cm_set_coord_system c s = s\<lparr>cm_coord_system := c\<rparr>"

definition cm_set_distance_mode :: "cmDistanceMode \<Rightarrow> machine \<Rightarrow> machine" where
  "cm_set_distance_mode m s = s\<lparr>cm_distance_mode := m\<rparr>"

definition cm_get_axis_jerk :: "axis \<Rightarrow> machine \<Rightarrow> real" where
  "cm_get_axis_jerk a s = cm_jerk_max s a"

definition cm_set_axis_jerk :: "axis \<Rightarrow> real \<Rightarrow> machine \<Rightarrow> machine" where
  "cm_set_axis_jerk a j s = s\<lparr>cm_jerk_max := (cm_jerk_max s)(a := j)\<rparr>"

definition cm_get_absolute_position :: "axis \<Rightarrow> machine \<Rightarrow> real" where
  "cm_get_absolute_position a s = absolute_position s a"

definition cm_get_runtime_busy :: "machine \<Rightarrow> bool" where
  "cm_get_runtime_busy s = runtime_busy s"

definition gpio_read_input :: "nat \<Rightarrow> machine \<Rightarrow> int \<times> machine" where
  "gpio_read_input n s = (gpio_input s n, emit (GPIO_READ_INPUT n) s)"

definition gpio_set_probing_mode :: "nat \<Rightarrow> bool \<Rightarrow> machine \<Rightarrow> machine" where
  "gpio_set_probing_mode n b s =
     emit (GPIO_SET_PROBING_MODE n b) (s\<lparr>gpio_probing_mode := (gpio_probing_mode s)(n := b)\<rparr>)"

definition cm_straight_feed :: "(axis \<Rightarrow> real) \<Rightarrow> (axis \<Rightarrow> bool) \<Rightarrow> machine \<Rightarrow> machine" where
  "cm_straight_feed tgt flg s = emit (CM_STRAIGHT_FEED tgt flg) s"

definition cm_queue_flush :: "machine \<Rightarrow> machine" where
  "cm_queue_flush s = emit CM_QUEUE_FLUSH s"

definition cm_spindle_optional_pause :: "bool \<Rightarrow> machine \<Rightarrow> machine" where
  "cm_spindle_optional_pause b s = emit (CM_SPINDLE_OPTIONAL_PAUSE b) s"

definition cm_spindle_resume :: "machine \<Rightarrow> machine" where
  "cm_spindle_resume s = emit CM_SPINDLE_RESUME s"

definition cm_set_motion_mode_cancel :: "machine \<Rightarrow> machine" where
  "cm_set_motion_mode_cancel s = emit CM_SET_MOTION_MODE_CANCEL s"

definition cm_canned_cycle_end :: "machine \<Rightarrow> machine" where
  "cm_canned_cycle_end s = emit CM_CANNED_CYCLE_END (s\<lparr>cm_cycle_state := CYCLE_OFF\<rparr>)"

text \<open>
  Modelled from the spec: the macro \<^verbatim>\<open>fp_TRUE\<close> is not among the sources. The
  spec says that motion requested on an axis outside the primary linear set is
  a violation, and the source notes that the test reduces to the flag itself
  now that the flags are booleans.
\<close>

definition fp_TRUE :: "bool \<Rightarrow> bool" where
  "fp_TRUE b = b"

text \<open>
  Modelled from the spec: \<^verbatim>\<open>get_axis_vector_length\<close> is not among the sources.
  The spec calls it the travel distance between the current position and the
  target: the Euclidean length of the difference over the six axes.
\<close>

definition get_axis_vector_length :: "(axis \<Rightarrow> real) \<Rightarrow> (axis \<Rightarrow> real) \<Rightarrow> real" where
  "get_axis_vector_length a b =
     sqrt ((a AXIS_X - b AXIS_X)\<^sup>2 + (a AXIS_Y - b AXIS_Y)\<^sup>2 + (a AXIS_Z - b AXIS_Z)\<^sup>2 +
           (a AXIS_A - b AXIS_A)\<^sup>2 + (a AXIS_B - b AXIS_B)\<^sup>2 + (a AXIS_C - b AXIS_C)\<^sup>2)"

subsection \<open>\<^verbatim>\<open>planner.h\<close>\<close>

definition PLANNER_BUFFER_POOL_SIZE :: nat where
  "PLANNER_BUFFER_POOL_SIZE = 28"

text \<open>
  The pool \<^verbatim>\<open>mpBufferPool_t\<close> counts its free slots in the \<^verbatim>\<open>uint8_t\<close> field
  \<^verbatim>\<open>buffers_available\<close>; a pool with every slot free stores its size there.
\<close>

definition buffers_available_when_empty :: "8 word" where
  "buffers_available_when_empty = of_nat PLANNER_BUFFER_POOL_SIZE"

subsection \<open>\<^verbatim>\<open>cycle_probing.cpp\<close>\<close>

definition MINIMUM_PROBE_TRAVEL :: real where
  "MINIMUM_PROBE_TRAVEL = 254 / 1000"

definition set_pb_func :: "pbFunc \<Rightarrow> machine \<Rightarrow> stat_t \<times> machine" where
  "set_pb_func f s = (STAT_EAGAIN, s\<lparr>pb_func := f\<rparr>)"

text \<open>
  \<^verbatim>\<open>cm_straight_probe\<close>. The macro \<^verbatim>\<open>fp_ZERO\<close> is not among the sources and
  is a parameter: the test the build applies to decide that a float is zero.
\<close>

definition cm_straight_probe ::
  "(real \<Rightarrow> bool) \<Rightarrow> (axis \<Rightarrow> real) \<Rightarrow> (axis \<Rightarrow> bool) \<Rightarrow> machine \<Rightarrow> stat_t \<times> machine" where
  "cm_straight_probe fp_ZERO tgt flg s =
     (if fp_ZERO (cm_feed_rate s) then (STAT_GCODE_FEEDRATE_NOT_SPECIFIED, s)
      else if \<not> flg AXIS_X \<and> \<not> flg AXIS_Y \<and> \<not> flg AXIS_Z then (STAT_GCODE_AXIS_IS_MISSING, s)
      else (STAT_OK,
            s\<lparr>pb_target := tgt,
              pb_flags := flg,
              cm_probe_results := (\<lambda>_. 0),
              cm_probe_state := PROBE_WAITING,
              pb_func := PROBING_INIT\<rparr>))"

definition probe_restore_settings :: "machine \<Rightarrow> machine" where
  "probe_restore_settings s0 =
     (let s1 = cm_queue_flush s0;
          s2 = gpio_set_probing_mode (pb_probe_input s1) False s1;
          s3 = fold (\<lambda>a s. s\<lparr>cm_jerk_max := (cm_jerk_max s)(a := pb_saved_jerk s a)\<rparr>) AXES s2;
          s4 = cm_set_coord_system (pb_saved_coord_system s3) s3;
          s5 = cm_set_distance_mode (pb_saved_distance_mode s4) s4;
          s6 = cm_spindle_resume s5;
          s7 = cm_set_motion_mode_cancel s6
      in cm_canned_cycle_end s7)"

definition probing_finalize_exit :: "machine \<Rightarrow> stat_t \<times> machine" where
  "probing_finalize_exit s = (STAT_OK, probe_restore_settings s)"

text \<open>The argument is the \<^verbatim>\<open>int8_t axis\<close>: an axis number, or -2 for a bad destination.\<close>

definition probing_error_exit :: "int \<Rightarrow> machine \<Rightarrow> stat_t \<times> machine" where
  "probing_error_exit ax s0 =
     (let s1 = emit NV_RESET_NV_LIST s0;
          s2 = (if ax = - 2 then emit NV_MESSAGE_INVALID_DESTINATION s1
                else emit (NV_MESSAGE_AXIS_CANNOT_MOVE ax) s1);
          s3 = emit (NV_PRINT_LIST STAT_PROBE_CYCLE_FAILED) s2
      in (STAT_PROBE_CYCLE_FAILED, probe_restore_settings s3))"

text \<open>
  One pass of the first loop of \<^verbatim>\<open>_probing_init\<close>; the local array
  \<^verbatim>\<open>start_position\<close> travels beside the machine.
\<close>

definition init_axis :: "axis \<Rightarrow> (axis \<Rightarrow> real) \<times> machine \<Rightarrow> (axis \<Rightarrow> real) \<times> machine" where
  "init_axis a ps =
     (let start_position = fst ps; s0 = snd ps;
          s1 = s0\<lparr>pb_saved_jerk := (pb_saved_jerk s0)(a := cm_get_axis_jerk a s0)\<rparr>;
          s2 = cm_set_axis_jerk a (cm_jerk_high s1 a) s1
      in (start_position(a := cm_get_absolute_position a s2), s2))"

text \<open>
  \<^verbatim>\<open>_probing_init\<close>. Both calls of \<^verbatim>\<open>_probing_error_exit\<close> are statements:
  the status they return is dropped and the function goes on with the machine
  they leave. The local array starts uninitialised and the first loop writes
  every entry, so the zeros it starts from here are never read.
\<close>

definition probing_init :: "machine \<Rightarrow> stat_t \<times> machine" where
  "probing_init s0 =
     (let s1 = s0\<lparr>cm_probe_state := PROBE_FAILED,
                  cm_machine_state := MACHINE_CYCLE,
                  cm_cycle_state := CYCLE_PROBE\<rparr>;
          s2 = s1\<lparr>pb_saved_coord_system := cm_get_coord_system s1\<rparr>;
          s3 = s2\<lparr>pb_saved_distance_mode := cm_get_distance_mode s2\<rparr>;
          s4 = cm_set_distance_mode ABSOLUTE_MODE s3;
          s5 = cm_set_coord_system ABSOLUTE_COORDS s4;
          ps = fold init_axis AXES (\<lambda>_. 0, s5);
          start_position = fst ps;
          s6 = snd ps;
          s7 = (if get_axis_vector_length start_position (pb_target s6) < MINIMUM_PROBE_TRAVEL
                then snd (probing_error_exit (- 2) s6) else s6);
          s8 = fold (\<lambda>a s. if fp_TRUE (pb_flags s a)
                            then snd (probing_error_exit (axis_number a) s) else s)
                    ROTARY_AXES s7;
          s9 = s8\<lparr>pb_probe_input := 5\<rparr>;
          s10 = gpio_set_probing_mode (pb_probe_input s9) True s9;
          s11 = cm_spindle_optional_pause True s10
      in set_pb_func PROBING_START s11)"

definition probing_start :: "machine \<Rightarrow> stat_t \<times> machine" where
  "probing_start s0 =
     (let r = gpio_read_input (pb_probe_input s0) s0; probe = fst r; s1 = snd r
      in if probe = INPUT_INACTIVE
         then set_pb_func PROBING_BACKOFF (cm_straight_feed (pb_target s1) (pb_flags s1) s1)
         else set_pb_func PROBING_FINISH (s1\<lparr>cm_probe_state := PROBE_SUCCEEDED\<rparr>))"

text \<open>
  \<^verbatim>\<open>_probing_backoff\<close>. The forward kinematics are a collaborator and a
  parameter; \<^verbatim>\<open>en_get_encoder_snapshot_vector\<close> returns the snapshot the
  switch interrupt latched.
\<close>

definition probing_backoff :: "(real list \<Rightarrow> axis \<Rightarrow> real) \<Rightarrow> machine \<Rightarrow> stat_t \<times> machine" where
  "probing_backoff kn_forward_kinematics s0 =
     (let r = gpio_read_input (pb_probe_input s0) s0; probe = fst r; s1 = snd r
      in if probe = INPUT_INACTIVE
         then set_pb_func PROBING_FINISH (s1\<lparr>cm_probe_state := PROBE_FAILED\<rparr>)
         else
           (let s2 = s1\<lparr>cm_probe_state := PROBE_SUCCEEDED\<rparr>;
                contact_position = kn_forward_kinematics (encoder_snapshot s2);
                s3 = cm_queue_flush s2;
                s4 = cm_straight_feed contact_position (pb_flags s3) s3
            in set_pb_func PROBING_FINISH s4))"

text \<open>The fields of the report, one per flagged axis, in the order the source prints them.\<close>

definition prb_fields :: "machine \<Rightarrow> (char \<times> real) list" where
  "prb_fields s =
     (if pb_flags s AXIS_X then [(CHR ''x'', cm_probe_results s AXIS_X)] else []) @
     (if pb_flags s AXIS_Y then [(CHR ''y'', cm_probe_results s AXIS_Y)] else []) @
     (if pb_flags s AXIS_Z then [(CHR ''z'', cm_probe_results s AXIS_Z)] else []) @
     (if pb_flags s AXIS_A then [(CHR ''a'', cm_probe_results s AXIS_A)] else []) @
     (if pb_flags s AXIS_B then [(CHR ''b'', cm_probe_results s AXIS_B)] else []) @
     (if pb_flags s AXIS_C then [(CHR ''c'', cm_probe_results s AXIS_C)] else [])"

text \<open>
  \<^verbatim>\<open>_probing_finish\<close>. The reading is compared with \<^verbatim>\<open>true\<close>, the integer 1,
  where the start and backoff states compare theirs with \<^verbatim>\<open>INPUT_INACTIVE\<close>.
\<close>

definition probing_finish :: "machine \<Rightarrow> stat_t \<times> machine" where
  "probing_finish s0 =
     (let r = gpio_read_input (pb_probe_input s0) s0; probe = fst r; s1 = snd r;
          s2 = s1\<lparr>cm_probe_state := (if probe = 1 then PROBE_SUCCEEDED else PROBE_FAILED)\<rparr>;
          s3 = fold (\<lambda>a s. s\<lparr>cm_probe_results :=
                               (cm_probe_results s)(a := cm_get_absolute_position a s)\<rparr>) AXES s2;
          s4 = emit (PRINTF_PRB (cm_probe_state s3) (prb_fields s3)) s3
      in set_pb_func PROBING_FINALIZE_EXIT s4)"

text \<open>Calling through \<^verbatim>\<open>pb.func\<close>; through a null pointer there is no result.\<close>

fun call_pb_func ::
  "(real list \<Rightarrow> axis \<Rightarrow> real) \<Rightarrow> pbFunc \<Rightarrow> machine \<Rightarrow> (stat_t \<times> machine) option" where
  "call_pb_func kin FUNC_NULL s = None"
| "call_pb_func kin PROBING_INIT s = Some (probing_init s)"
| "call_pb_func kin PROBING_START s = Some (probing_start s)"
| "call_pb_func kin PROBING_BACKOFF s = Some (probing_backoff kin s)"
| "call_pb_func kin PROBING_FINISH s = Some (probing_finish s)"
| "call_pb_func kin PROBING_FINALIZE_EXIT s = Some (probing_finalize_exit s)"

definition cm_probing_cycle_callback ::
  "(real list \<Rightarrow> axis \<Rightarrow> real) \<Rightarrow> machine \<Rightarrow> (stat_t \<times> machine) option" where
  "cm_probing_cycle_callback kin s =
     (if cm_cycle_state s \<noteq> CYCLE_PROBE \<and> cm_probe_state s \<noteq> PROBE_WAITING
      then Some (STAT_NOOP, s)
      else if cm_get_runtime_busy s then Some (STAT_EAGAIN, s)
      else call_pb_func kin (pb_func s) s)"

subsection \<open>Polling the callback\<close>

text \<open>
  The controller calls the callback on every iteration of its loop. Between
  two calls the runtime, the switch and the encoders move on: an observation
  is what they report during one call.
\<close>

record observation =
  obs_busy :: bool
  obs_inputs :: "nat \<Rightarrow> int"
  obs_position :: "axis \<Rightarrow> real"
  obs_snapshot :: "real list"

definition observe :: "observation \<Rightarrow> machine \<Rightarrow> machine" where
  "observe ob s =
     s\<lparr>runtime_busy := obs_busy ob,
       gpio_input := obs_inputs ob,
       absolute_position := obs_position ob,
       encoder_snapshot := obs_snapshot ob\<rparr>"

text \<open>One call per observation; the statuses returned, in order, and the machine left.\<close>

fun poll ::
  "(real list \<Rightarrow> axis \<Rightarrow> real) \<Rightarrow> observation list \<Rightarrow> machine \<Rightarrow>
   (stat_t list \<times> machine) option" where
  "poll kin [] s = Some ([], s)"
| "poll kin (ob # obs) s =
     (case cm_probing_cycle_callback kin (observe ob s) of
        None \<Rightarrow> None
      | Some r \<Rightarrow>
          (case poll kin obs (snd r) of
             None \<Rightarrow> None
           | Some rs \<Rightarrow> Some (fst r # fst rs, snd rs)))"

subsection \<open>The runtime behind the callback\<close>

text \<open>
  Modelled from the spec: the planner and the runtime executor, and with them
  \<^verbatim>\<open>cm_straight_feed\<close> and \<^verbatim>\<open>cm_get_absolute_position\<close>, are not among the
  sources. The spec says that a move is planned from the last planned position
  to its requested target along the axes that take part in it, that the probe
  move is made in absolute machine coordinates, and that the runtime reports
  not busy only after the final position of the move has been recorded. So a
  move that runs to its end leaves every axis that takes part at the target
  and every other axis where it was, and an idle runtime reports the position
  that the moves queued so far end at. This is the runtime of moves that no
  switch cuts short.
\<close>

fun move_endpoint :: "event \<Rightarrow> (axis \<Rightarrow> real) \<Rightarrow> (axis \<Rightarrow> real)" where
  "move_endpoint (CM_STRAIGHT_FEED tgt flg) pos = (\<lambda>a. if flg a then tgt a else pos a)"
| "move_endpoint e pos = pos"

definition position_after :: "(axis \<Rightarrow> real) \<Rightarrow> event list \<Rightarrow> (axis \<Rightarrow> real)" where
  "position_after home es = fold move_endpoint es home"

text \<open>
  What the collaborators report to the machine \<open>s\<close> of a cycle requested at
  \<open>s1\<close> with the tool at \<open>home\<close>: the observation as it is while the runtime
  is busy, and with the position the queued moves end at once it is idle.
\<close>

definition runtime_reports ::
  "(axis \<Rightarrow> real) \<Rightarrow> machine \<Rightarrow> machine \<Rightarrow> observation \<Rightarrow> observation" where
  "runtime_reports home s1 s ob =
     (if obs_busy ob then ob
      else ob\<lparr>obs_position := position_after home (emitted s1 s)\<rparr>)"

text \<open>One call per observation, each observation seen through that runtime.\<close>

fun poll_runtime ::
  "(real list \<Rightarrow> axis \<Rightarrow> real) \<Rightarrow> (axis \<Rightarrow> real) \<Rightarrow> machine \<Rightarrow> observation list \<Rightarrow> machine \<Rightarrow>
   (stat_t list \<times> machine) option" where
  "poll_runtime kin home s1 [] s = Some ([], s)"
| "poll_runtime kin home s1 (ob # obs) s =
     (case cm_probing_cycle_callback kin (observe (runtime_reports home s1 s ob) s) of
        None \<Rightarrow> None
      | Some r \<Rightarrow>
          (case poll_runtime kin home s1 obs (snd r) of
             None \<Rightarrow> None
           | Some rs \<Rightarrow> Some (fst r # fst rs, snd rs)))"

subsection \<open>Reading a trace\<close>

fun is_straight_feed :: "event \<Rightarrow> bool" where
  "is_straight_feed (CM_STRAIGHT_FEED tgt flg) = True"
| "is_straight_feed e = False"

text \<open>The moves a trace queued, in order.\<close>

definition moves :: "event list \<Rightarrow> event list" where
  "moves es = filter is_straight_feed es"

text \<open>The inputs a trace read or set the probing mode of, in order.\<close>

fun gpio_inputs_used :: "event list \<Rightarrow> nat list" where
  "gpio_inputs_used [] = []"
| "gpio_inputs_used (GPIO_READ_INPUT n # es) = n # gpio_inputs_used es"
| "gpio_inputs_used (GPIO_SET_PROBING_MODE n b # es) = n # gpio_inputs_used es"
| "gpio_inputs_used (e # es) = gpio_inputs_used es"

text \<open>The inputs a trace put into probing mode, in order.\<close>

fun armed_inputs :: "event list \<Rightarrow> nat list" where
  "armed_inputs [] = []"
| "armed_inputs (GPIO_SET_PROBING_MODE n True # es) = n # armed_inputs es"
| "armed_inputs (e # es) = armed_inputs es"

text \<open>
  What leaving the cycle owes the machine \<open>s\<close> it was entered with: the saved
  jerk of every axis, the saved coordinate system and distance mode, the probe
  input back in normal mode, and the spindle told to resume.
\<close>

definition settings_restored :: "machine \<Rightarrow> machine \<Rightarrow> bool" where
  "settings_restored s s' \<longleftrightarrow>
     cm_jerk_max s' = pb_saved_jerk s \<and>
     cm_coord_system s' = pb_saved_coord_system s \<and>
     cm_distance_mode s' = pb_saved_distance_mode s \<and>
     gpio_probing_mode s' (pb_probe_input s) = False \<and>
     GPIO_SET_PROBING_MODE (pb_probe_input s) False \<in> set (emitted s s') \<and>
     CM_SPINDLE_RESUME \<in> set (emitted s s')"

subsection \<open>Example inputs\<close>

text \<open>
  A machine at rest at the origin, feeding at 100 mm/min in G54 and incremental
  distance mode, before any probe was requested.
\<close>

definition machine_at_rest :: machine where
  "machine_at_rest =
     \<lparr>cm_feed_rate = 100,
      cm_probe_state = PROBE_FAILED,
      cm_machine_state = MACHINE_READY,
      cm_cycle_state = CYCLE_OFF,
      cm_coord_system = G54,
      cm_distance_mode = INCREMENTAL_MODE,
      cm_jerk_max = (\<lambda>_. 20),
      cm_jerk_high = (\<lambda>_. 40),
      cm_probe_results = (\<lambda>_. 0),
      pb_func = FUNC_NULL,
      pb_probe_input = 0,
      pb_saved_distance_mode = ABSOLUTE_MODE,
      pb_saved_coord_system = ABSOLUTE_COORDS,
      pb_saved_jerk = (\<lambda>_. 0),
      pb_target = (\<lambda>_. 0),
      pb_flags = (\<lambda>_. False),
      absolute_position = (\<lambda>_. 0),
      runtime_busy = False,
      gpio_input = (\<lambda>_. 0),
      gpio_probing_mode = (\<lambda>_. False),
      encoder_snapshot = [],
      trace = []\<rparr>"

text \<open>A float counts as zero within a tolerance of 0.00001.\<close>

definition fp_ZERO_within :: "real \<Rightarrow> bool" where
  "fp_ZERO_within a \<longleftrightarrow> \<bar>a\<bar> < 1 / 100000"

text \<open>Probe targets: 10 mm and 0.1 mm below the origin, and a turn of the A axis.\<close>

definition target_z_down :: "axis \<Rightarrow> real" where
  "target_z_down = (\<lambda>_. 0)(AXIS_Z := - 10)"

definition target_z_near :: "axis \<Rightarrow> real" where
  "target_z_near = (\<lambda>_. 0)(AXIS_Z := - 1 / 10)"

definition target_a_turn :: "axis \<Rightarrow> real" where
  "target_a_turn = (\<lambda>_. 0)(AXIS_A := 90)"

definition flags_z :: "axis \<Rightarrow> bool" where
  "flags_z = (\<lambda>_. False)(AXIS_Z := True)"

definition flags_a :: "axis \<Rightarrow> bool" where
  "flags_a = (\<lambda>_. False)(AXIS_A := True)"

definition flags_none :: "axis \<Rightarrow> bool" where
  "flags_none = (\<lambda>_. False)"

text \<open>The machine after each request was made of the machine at rest.\<close>

definition machine_probing_down :: machine where
  "machine_probing_down = snd (cm_straight_probe fp_ZERO_within target_z_down flags_z machine_at_rest)"

definition machine_probing_near :: machine where
  "machine_probing_near = snd (cm_straight_probe fp_ZERO_within target_z_near flags_z machine_at_rest)"

text \<open>A one-motor kinematics for the examples: the Z axis follows the first motor, 100 steps to the mm.\<close>

definition kin_z :: "real list \<Rightarrow> axis \<Rightarrow> real" where
  "kin_z steps = (\<lambda>_. 0)(AXIS_Z := (case steps of [] \<Rightarrow> 0 | m # _ \<Rightarrow> m / 100))"

text \<open>
  Observations with the tool at the origin: the switch on input 5 open or
  closed, the runtime idle or busy.
\<close>

definition switch_open :: "nat \<Rightarrow> int" where
  "switch_open = (\<lambda>_. INPUT_INACTIVE)"

definition switch_closed :: "nat \<Rightarrow> int" where
  "switch_closed = (\<lambda>_. INPUT_INACTIVE)(5 := INPUT_ACTIVE)"

definition idle_open_at_origin :: observation where
  "idle_open_at_origin =
     \<lparr>obs_busy = False, obs_inputs = switch_open, obs_position = (\<lambda>_. 0), obs_snapshot = [0]\<rparr>"

definition idle_closed_at_origin :: observation where
  "idle_closed_at_origin =
     \<lparr>obs_busy = False, obs_inputs = switch_closed, obs_position = (\<lambda>_. 0), obs_snapshot = [0]\<rparr>"

definition busy_open_at_origin :: observation where
  "busy_open_at_origin =
     \<lparr>obs_busy = True, obs_inputs = switch_open, obs_position = (\<lambda>_. 0), obs_snapshot = [0]\<rparr>"

section \<open>What each function does, written out\<close>

lemmas collaborator_defs =
  emit_def cm_get_coord_system_def cm_get_distance_mode_def cm_set_coord_system_def
  cm_set_distance_mode_def cm_get_axis_jerk_def cm_set_axis_jerk_def
  cm_get_absolute_position_def cm_get_runtime_busy_def gpio_read_input_def
  gpio_set_probing_mode_def cm_straight_feed_def cm_queue_flush_def
  cm_spindle_optional_pause_def cm_spindle_resume_def cm_set_motion_mode_cancel_def
  cm_canned_cycle_end_def fp_TRUE_def set_pb_func_def

lemma every_axis_written:
  "f(AXIS_X := g AXIS_X, AXIS_Y := g AXIS_Y, AXIS_Z := g AXIS_Z,
     AXIS_A := g AXIS_A, AXIS_B := g AXIS_B, AXIS_C := g AXIS_C) = g"
proof
  fix a show "(f(AXIS_X := g AXIS_X, AXIS_Y := g AXIS_Y, AXIS_Z := g AXIS_Z,
     AXIS_A := g AXIS_A, AXIS_B := g AXIS_B, AXIS_C := g AXIS_C)) a = g a"
    by (cases a) simp_all
qed

lemma emitted_append [simp]: "trace s' = trace s @ es \<Longrightarrow> emitted s s' = es"
  by (simp add: emitted_def)

lemma armed_inputs_append: "armed_inputs (xs @ ys) = armed_inputs xs @ armed_inputs ys"
  by (induction xs rule: armed_inputs.induct) simp_all

subsection \<open>The exit paths\<close>

lemma probe_restore_settings_eq:
  "probe_restore_settings s =
     s\<lparr>cm_jerk_max := pb_saved_jerk s,
       cm_coord_system := pb_saved_coord_system s,
       cm_distance_mode := pb_saved_distance_mode s,
       cm_cycle_state := CYCLE_OFF,
       gpio_probing_mode := (gpio_probing_mode s)(pb_probe_input s := False),
       trace := trace s @ [CM_QUEUE_FLUSH, GPIO_SET_PROBING_MODE (pb_probe_input s) False,
                           CM_SPINDLE_RESUME, CM_SET_MOTION_MODE_CANCEL, CM_CANNED_CYCLE_END]\<rparr>"
  by (simp add: probe_restore_settings_def Let_def AXES_def collaborator_defs every_axis_written)

lemma probing_finalize_exit_eq:
  "probing_finalize_exit s =
     (STAT_OK,
      s\<lparr>cm_jerk_max := pb_saved_jerk s,
        cm_coord_system := pb_saved_coord_system s,
        cm_distance_mode := pb_saved_distance_mode s,
        cm_cycle_state := CYCLE_OFF,
        gpio_probing_mode := (gpio_probing_mode s)(pb_probe_input s := False),
        trace := trace s @ [CM_QUEUE_FLUSH, GPIO_SET_PROBING_MODE (pb_probe_input s) False,
                            CM_SPINDLE_RESUME, CM_SET_MOTION_MODE_CANCEL, CM_CANNED_CYCLE_END]\<rparr>)"
  by (simp add: probing_finalize_exit_def probe_restore_settings_eq)

lemma probing_error_exit_eq:
  "probing_error_exit ax s =
     (STAT_PROBE_CYCLE_FAILED,
      s\<lparr>cm_jerk_max := pb_saved_jerk s,
        cm_coord_system := pb_saved_coord_system s,
        cm_distance_mode := pb_saved_distance_mode s,
        cm_cycle_state := CYCLE_OFF,
        gpio_probing_mode := (gpio_probing_mode s)(pb_probe_input s := False),
        trace := trace s @
          [NV_RESET_NV_LIST,
           if ax = - 2 then NV_MESSAGE_INVALID_DESTINATION else NV_MESSAGE_AXIS_CANNOT_MOVE ax,
           NV_PRINT_LIST STAT_PROBE_CYCLE_FAILED,
           CM_QUEUE_FLUSH, GPIO_SET_PROBING_MODE (pb_probe_input s) False,
           CM_SPINDLE_RESUME, CM_SET_MOTION_MODE_CANCEL, CM_CANNED_CYCLE_END]\<rparr>)"
  by (simp add: probing_error_exit_def Let_def probe_restore_settings_eq emit_def)

subsection \<open>Initialisation\<close>

lemma fold_init_axis:
  "fold init_axis AXES (p, s) =
     (absolute_position s, s\<lparr>pb_saved_jerk := cm_jerk_max s, cm_jerk_max := cm_jerk_high s\<rparr>)"
  by (simp add: AXES_def init_axis_def Let_def collaborator_defs every_axis_written)

text \<open>The length is compared through its square, which needs no square root.\<close>

lemma too_close_iff:
  "get_axis_vector_length a b < MINIMUM_PROBE_TRAVEL \<longleftrightarrow>
     (a AXIS_X - b AXIS_X)\<^sup>2 + (a AXIS_Y - b AXIS_Y)\<^sup>2 + (a AXIS_Z - b AXIS_Z)\<^sup>2 +
     (a AXIS_A - b AXIS_A)\<^sup>2 + (a AXIS_B - b AXIS_B)\<^sup>2 + (a AXIS_C - b AXIS_C)\<^sup>2
       < MINIMUM_PROBE_TRAVEL\<^sup>2"
proof -
  have "MINIMUM_PROBE_TRAVEL = sqrt (MINIMUM_PROBE_TRAVEL\<^sup>2)"
    by (simp add: MINIMUM_PROBE_TRAVEL_def)
  then show ?thesis
    unfolding get_axis_vector_length_def
    by (metis real_sqrt_less_iff)
qed

text \<open>An initialisation that finds nothing wrong.\<close>

lemma probing_init_valid:
  assumes "\<not> get_axis_vector_length (absolute_position s) (pb_target s) < MINIMUM_PROBE_TRAVEL"
    and "\<not> pb_flags s AXIS_A" and "\<not> pb_flags s AXIS_B" and "\<not> pb_flags s AXIS_C"
  shows "probing_init s =
     (STAT_EAGAIN,
      s\<lparr>cm_probe_state := PROBE_FAILED,
        cm_machine_state := MACHINE_CYCLE,
        cm_cycle_state := CYCLE_PROBE,
        pb_saved_coord_system := cm_coord_system s,
        pb_saved_distance_mode := cm_distance_mode s,
        cm_distance_mode := ABSOLUTE_MODE,
        cm_coord_system := ABSOLUTE_COORDS,
        pb_saved_jerk := cm_jerk_max s,
        cm_jerk_max := cm_jerk_high s,
        pb_probe_input := 5,
        gpio_probing_mode := (gpio_probing_mode s)(5 := True),
        trace := trace s @ [GPIO_SET_PROBING_MODE 5 True, CM_SPINDLE_OPTIONAL_PAUSE True],
        pb_func := PROBING_START\<rparr>)"
  using assms
  by (simp add: probing_init_def Let_def fold_init_axis ROTARY_AXES_def collaborator_defs)

text \<open>Whatever it finds, the last two calls of the initialisation arm input 5 and pause the spindle.\<close>

lemma probing_init_arms_five:
  "fst (probing_init s) = STAT_EAGAIN"
  "pb_func (snd (probing_init s)) = PROBING_START"
  "pb_probe_input (snd (probing_init s)) = 5"
  "gpio_probing_mode (snd (probing_init s)) 5"
  by (simp_all add: probing_init_def Let_def collaborator_defs)

lemma probing_init_trace:
  "\<exists>es. trace (snd (probing_init s)) =
          trace s @ es @ [GPIO_SET_PROBING_MODE 5 True, CM_SPINDLE_OPTIONAL_PAUSE True] \<and>
        armed_inputs es = []"
proof -
  define c where "c = (get_axis_vector_length (absolute_position s) (pb_target s) < MINIMUM_PROBE_TRAVEL)"
  show ?thesis
    by (cases c; cases "pb_flags s AXIS_A"; cases "pb_flags s AXIS_B"; cases "pb_flags s AXIS_C")
      (simp_all add: c_def probing_init_def Let_def fold_init_axis ROTARY_AXES_def
        probing_error_exit_eq collaborator_defs)
qed

subsection \<open>Start, backoff and finish\<close>

lemma probing_start_eq:
  "probing_start s =
     (if gpio_input s (pb_probe_input s) = INPUT_INACTIVE
      then (STAT_EAGAIN,
            s\<lparr>trace := trace s @ [GPIO_READ_INPUT (pb_probe_input s),
                                   CM_STRAIGHT_FEED (pb_target s) (pb_flags s)],
              pb_func := PROBING_BACKOFF\<rparr>)
      else (STAT_EAGAIN,
            s\<lparr>trace := trace s @ [GPIO_READ_INPUT (pb_probe_input s)],
              cm_probe_state := PROBE_SUCCEEDED,
              pb_func := PROBING_FINISH\<rparr>))"
  by (simp add: probing_start_def Let_def collaborator_defs)

lemma probing_backoff_eq:
  "probing_backoff kin s =
     (if gpio_input s (pb_probe_input s) = INPUT_INACTIVE
      then (STAT_EAGAIN,
            s\<lparr>trace := trace s @ [GPIO_READ_INPUT (pb_probe_input s)],
              cm_probe_state := PROBE_FAILED,
              pb_func := PROBING_FINISH\<rparr>)
      else (STAT_EAGAIN,
            s\<lparr>trace := trace s @ [GPIO_READ_INPUT (pb_probe_input s), CM_QUEUE_FLUSH,
                                   CM_STRAIGHT_FEED (kin (encoder_snapshot s)) (pb_flags s)],
              cm_probe_state := PROBE_SUCCEEDED,
              pb_func := PROBING_FINISH\<rparr>))"
  by (simp add: probing_backoff_def Let_def collaborator_defs)

lemma probing_finish_eq:
  "probing_finish s =
     (STAT_EAGAIN,
      s\<lparr>cm_probe_state :=
          (if gpio_input s (pb_probe_input s) = 1 then PROBE_SUCCEEDED else PROBE_FAILED),
        cm_probe_results := absolute_position s,
        trace := trace s @
          [GPIO_READ_INPUT (pb_probe_input s),
           PRINTF_PRB (if gpio_input s (pb_probe_input s) = 1 then PROBE_SUCCEEDED else PROBE_FAILED)
             (prb_fields (s\<lparr>cm_probe_results := absolute_position s\<rparr>))],
        pb_func := PROBING_FINALIZE_EXIT\<rparr>)"
  by (simp add: probing_finish_def Let_def AXES_def collaborator_defs every_axis_written
      prb_fields_def)

subsection \<open>Calls made while the runtime is busy\<close>

text \<open>
  In a cycle, or with one waiting, calls made while the runtime is busy return
  in-progress and leave the next call what it would have found without them.
\<close>

lemma observe_observe: "observe ob (observe b s) = observe ob s"
  by (simp add: observe_def)

lemma runtime_reports_observe:
  "runtime_reports home s1 (observe b s) ob = runtime_reports home s1 s ob"
  by (simp add: runtime_reports_def emitted_def observe_def)

lemma poll_runtime_busy:
  assumes "cm_cycle_state s = CYCLE_PROBE \<or> cm_probe_state s = PROBE_WAITING"
    and "\<forall>b \<in> set bs. obs_busy b"
  shows "poll_runtime kin home s1 (bs @ ob # obs) s =
     (case cm_probing_cycle_callback kin (observe (runtime_reports home s1 s ob) s) of
        None \<Rightarrow> None
      | Some r \<Rightarrow>
          (case poll_runtime kin home s1 obs (snd r) of
             None \<Rightarrow> None
           | Some rs \<Rightarrow> Some (replicate (length bs) STAT_EAGAIN @ fst r # fst rs, snd rs)))"
  using assms
proof (induction bs arbitrary: s)
  case Nil
  then show ?case by (simp split: option.splits)
next
  case (Cons b bs)
  have busy: "obs_busy b" using Cons.prems by simp
  have step: "cm_probing_cycle_callback kin (observe (runtime_reports home s1 s b) s) =
      Some (STAT_EAGAIN, observe b s)"
    using Cons.prems(1) busy
    by (auto simp: runtime_reports_def cm_probing_cycle_callback_def cm_get_runtime_busy_def
        observe_def)
  have active: "cm_cycle_state (observe b s) = CYCLE_PROBE \<or> cm_probe_state (observe b s) = PROBE_WAITING"
    using Cons.prems(1) by (simp add: observe_def)
  have rest: "\<forall>b \<in> set bs. obs_busy b" using Cons.prems by simp
  show ?case
    by (simp add: step Cons.IH [OF active rest] runtime_reports_observe observe_observe
        split: option.splits)
qed

subsection \<open>The example inputs\<close>

lemma machine_probing_down_eq:
  "cm_straight_probe fp_ZERO_within target_z_down flags_z machine_at_rest = (STAT_OK, machine_probing_down)"
  by (simp add: machine_probing_down_def cm_straight_probe_def machine_at_rest_def
      fp_ZERO_within_def flags_z_def)

lemma origin_far_from_target_z_down:
  "\<not> get_axis_vector_length (\<lambda>_. 0) target_z_down < MINIMUM_PROBE_TRAVEL"
  unfolding too_close_iff by (simp add: target_z_down_def MINIMUM_PROBE_TRAVEL_def power2_eq_square)

lemma origin_close_to_target_z_near:
  "get_axis_vector_length (\<lambda>_. 0) target_z_near < MINIMUM_PROBE_TRAVEL"
  unfolding too_close_iff by (simp add: target_z_near_def MINIMUM_PROBE_TRAVEL_def power2_eq_square)

section \<open>Properties\<close>

subsection \<open>A probe target too close to the current position\<close>

text \<open>
  C1. The claim is that a target within 0.254 mm of the current position sends
  the cycle to the error exit, which returns the probe-cycle-failed status, and
  that the cycle then neither arms the probe input nor goes on. The source
  calls the error exit and drops its status: with the tool at the origin and a
  target 0.1 mm below it, the call of the callback that runs the
  initialisation prints the message and restores the settings, then arms input
  5, pauses the spindle, binds the start state and returns the in-progress
  status.
\<close>

theorem probing_init_too_close_goes_on:
  "get_axis_vector_length (absolute_position (observe idle_open_at_origin machine_probing_near))
     (pb_target (observe idle_open_at_origin machine_probing_near)) < MINIMUM_PROBE_TRAVEL \<and>
   map_option fst (cm_probing_cycle_callback kin_z (observe idle_open_at_origin machine_probing_near))
     = Some STAT_EAGAIN \<and>
   map_option (pb_func \<circ> snd)
     (cm_probing_cycle_callback kin_z (observe idle_open_at_origin machine_probing_near))
     = Some PROBING_START \<and>
   map_option (trace \<circ> snd)
     (cm_probing_cycle_callback kin_z (observe idle_open_at_origin machine_probing_near))
     = Some [NV_RESET_NV_LIST, NV_MESSAGE_INVALID_DESTINATION, NV_PRINT_LIST STAT_PROBE_CYCLE_FAILED,
             CM_QUEUE_FLUSH, GPIO_SET_PROBING_MODE 0 False, CM_SPINDLE_RESUME,
             CM_SET_MOTION_MODE_CANCEL, CM_CANNED_CYCLE_END,
             GPIO_SET_PROBING_MODE 5 True, CM_SPINDLE_OPTIONAL_PAUSE True]"
proof -
  have close: "get_axis_vector_length (absolute_position (observe idle_open_at_origin machine_probing_near))
     (pb_target (observe idle_open_at_origin machine_probing_near)) < MINIMUM_PROBE_TRAVEL"
    using origin_close_to_target_z_near
    by (simp add: observe_def idle_open_at_origin_def machine_probing_near_def
        cm_straight_probe_def machine_at_rest_def fp_ZERO_within_def flags_z_def)
  show ?thesis
    apply (simp only: close simp_thms)
    apply (simp add: cm_probing_cycle_callback_def cm_get_runtime_busy_def)
    apply (simp add: observe_def idle_open_at_origin_def machine_probing_near_def
        cm_straight_probe_def machine_at_rest_def fp_ZERO_within_def flags_z_def)
    apply (simp add: probing_init_def Let_def fold_init_axis ROTARY_AXES_def
        probing_error_exit_eq collaborator_defs origin_close_to_target_z_near)
    done
qed

subsection \<open>Cleanup\<close>

text \<open>
  C2. Both exits, the normal one and the error one with any argument, from any
  machine: the jerk of every axis, the coordinate system and the distance mode
  are the saved ones, the probe input is out of probing mode, and the spindle
  was told to resume.
\<close>

theorem probing_cleanup_restores:
  "settings_restored s (snd (probing_finalize_exit s)) \<and>
   settings_restored s (snd (probing_error_exit ax s))"
  by (simp add: settings_restored_def probing_finalize_exit_eq probing_error_exit_eq)

subsection \<open>The request\<close>

text \<open>
  A request that names the A axis alone has a flag set and is still rejected
  for a missing axis: the test looks at the X, Y and Z flags only.
\<close>

theorem cm_straight_probe_rotary_only_rejected:
  "flags_a AXIS_A \<and> \<not> fp_ZERO_within (cm_feed_rate machine_at_rest) \<and>
   cm_straight_probe fp_ZERO_within target_a_turn flags_a machine_at_rest =
     (STAT_GCODE_AXIS_IS_MISSING, machine_at_rest)"
  by (simp add: cm_straight_probe_def flags_a_def fp_ZERO_within_def machine_at_rest_def)

text \<open>
  C3, amended. The request is rejected at the call, the machine unchanged,
  with the feed-rate error exactly when the feed rate is zero, and with the
  missing-axis error exactly when it is not and none of the X, Y and Z flags is
  set, whatever the A, B and C flags; every other request is accepted with ok,
  and stores the target and the flags, clears the old results, marks the probe
  as waiting and binds the initialisation.
\<close>

theorem cm_straight_probe_preconditions:
  "(fst (cm_straight_probe fpz tgt flg s) = STAT_GCODE_FEEDRATE_NOT_SPECIFIED \<longleftrightarrow>
      fpz (cm_feed_rate s)) \<and>
   (fst (cm_straight_probe fpz tgt flg s) = STAT_GCODE_AXIS_IS_MISSING \<longleftrightarrow>
      \<not> fpz (cm_feed_rate s) \<and> \<not> flg AXIS_X \<and> \<not> flg AXIS_Y \<and> \<not> flg AXIS_Z) \<and>
   (fst (cm_straight_probe fpz tgt flg s) = STAT_OK \<longleftrightarrow>
      \<not> fpz (cm_feed_rate s) \<and> (flg AXIS_X \<or> flg AXIS_Y \<or> flg AXIS_Z)) \<and>
   (fst (cm_straight_probe fpz tgt flg s) \<noteq> STAT_OK \<longrightarrow>
      snd (cm_straight_probe fpz tgt flg s) = s) \<and>
   (fst (cm_straight_probe fpz tgt flg s) = STAT_OK \<longrightarrow>
      snd (cm_straight_probe fpz tgt flg s) =
        s\<lparr>pb_target := tgt, pb_flags := flg, cm_probe_results := (\<lambda>_. 0),
          cm_probe_state := PROBE_WAITING, pb_func := PROBING_INIT\<rparr>)"
  by (simp add: cm_straight_probe_def)

theorem cm_straight_probe_preconditions_witness:
  "fst (cm_straight_probe fp_ZERO_within target_a_turn flags_none machine_at_rest) \<noteq> STAT_OK \<and>
   snd (cm_straight_probe fp_ZERO_within target_a_turn flags_none machine_at_rest) = machine_at_rest \<and>
   fst (cm_straight_probe fp_ZERO_within target_z_down flags_z machine_at_rest) = STAT_OK \<and>
   snd (cm_straight_probe fp_ZERO_within target_z_down flags_z machine_at_rest) =
     machine_at_rest\<lparr>pb_target := target_z_down, pb_flags := flags_z, cm_probe_results := (\<lambda>_. 0),
       cm_probe_state := PROBE_WAITING, pb_func := PROBING_INIT\<rparr>"
proof -
  have rejected:
    "fst (cm_straight_probe fp_ZERO_within target_a_turn flags_none machine_at_rest) \<noteq> STAT_OK"
    using cm_straight_probe_preconditions [of fp_ZERO_within target_a_turn flags_none machine_at_rest]
    by (simp add: flags_none_def)
  have accepted:
    "fst (cm_straight_probe fp_ZERO_within target_z_down flags_z machine_at_rest) = STAT_OK"
    using cm_straight_probe_preconditions [of fp_ZERO_within target_z_down flags_z machine_at_rest]
    by (simp add: flags_z_def fp_ZERO_within_def machine_at_rest_def)
  show ?thesis
    using rejected accepted
      cm_straight_probe_preconditions [of fp_ZERO_within target_a_turn flags_none machine_at_rest]
      cm_straight_probe_preconditions [of fp_ZERO_within target_z_down flags_z machine_at_rest]
    by blast
qed

subsection \<open>A switch that never closes\<close>

text \<open>
  C4. An accepted request, the tool at \<open>home\<close>, a target far enough from it
  and on the linear axes only, and any schedule of calls in which five find the
  runtime idle, with any number of calls that find it busy before each of them;
  the switch reads open at the start, the backoff and the finish. Every call but
  the last returns in-progress and the last returns ok, none the
  probe-cycle-failed status. The result is marked failed. The planned move to
  the target is the only move queued, and the results hold for every axis the
  position that move ends at: the target on every axis that takes part, and the
  whole target when it repeats the position of the tool on the other axes. The
  cycle is over: the cycle state is off, jerk, coordinate system and distance
  mode are those of before the request, input 5 is out of probing mode, the
  spindle was told to resume, ending the canned cycle was the last call made,
  and any later call of the callback does nothing.
\<close>

theorem probe_never_triggers:
  assumes accepted: "cm_straight_probe fpz tgt flg s0 = (STAT_OK, s1)"
    and busy: "\<forall>b \<in> set (b1 @ b2 @ b3 @ b4 @ b5). obs_busy b"
    and idle: "\<not> obs_busy o1" "\<not> obs_busy o2" "\<not> obs_busy o3" "\<not> obs_busy o4" "\<not> obs_busy o5"
    and far: "\<not> get_axis_vector_length home tgt < MINIMUM_PROBE_TRAVEL"
    and linear: "\<not> flg AXIS_A" "\<not> flg AXIS_B" "\<not> flg AXIS_C"
    and never: "obs_inputs o2 5 = INPUT_INACTIVE" "obs_inputs o3 5 = INPUT_INACTIVE"
      "obs_inputs o4 5 = INPUT_INACTIVE"
  shows "\<exists>s'. poll_runtime kin home s1 (b1 @ [o1] @ b2 @ [o2] @ b3 @ [o3] @ b4 @ [o4] @ b5 @ [o5]) s1 =
           Some (replicate (length b1) STAT_EAGAIN @ [STAT_EAGAIN] @
                 replicate (length b2) STAT_EAGAIN @ [STAT_EAGAIN] @
                 replicate (length b3) STAT_EAGAIN @ [STAT_EAGAIN] @
                 replicate (length b4) STAT_EAGAIN @ [STAT_EAGAIN] @
                 replicate (length b5) STAT_EAGAIN @ [STAT_OK], s') \<and>
         cm_probe_state s' = PROBE_FAILED \<and>
         cm_probe_results s' = move_endpoint (CM_STRAIGHT_FEED tgt flg) home \<and>
         (\<forall>a. flg a \<longrightarrow> cm_probe_results s' a = tgt a) \<and>
         moves (emitted s1 s') = [CM_STRAIGHT_FEED tgt flg] \<and>
         cm_cycle_state s' = CYCLE_OFF \<and>
         cm_jerk_max s' = cm_jerk_max s0 \<and>
         cm_coord_system s' = cm_coord_system s0 \<and>
         cm_distance_mode s' = cm_distance_mode s0 \<and>
         gpio_probing_mode s' 5 = False \<and>
         ((\<forall>a. \<not> flg a \<longrightarrow> tgt a = home a) \<longrightarrow> cm_probe_results s' = tgt) \<and>
         CM_SPINDLE_RESUME \<in> set (emitted s1 s') \<and>
         last (emitted s1 s') = CM_CANNED_CYCLE_END \<and>
         (\<forall>ob. cm_probing_cycle_callback kin (observe ob s') = Some (STAT_NOOP, observe ob s'))"
proof -
  from accepted have s1: "s1 = s0\<lparr>pb_target := tgt, pb_flags := flg, cm_probe_results := (\<lambda>_. 0),
      cm_probe_state := PROBE_WAITING, pb_func := PROBING_INIT\<rparr>"
    by (auto simp: cm_straight_probe_def split: if_splits)
  from busy have b: "\<forall>b \<in> set b1. obs_busy b" "\<forall>b \<in> set b2. obs_busy b"
    "\<forall>b \<in> set b3. obs_busy b" "\<forall>b \<in> set b4. obs_busy b" "\<forall>b \<in> set b5. obs_busy b"
    by simp_all
  have whole: "(\<forall>a. \<not> flg a \<longrightarrow> tgt a = home a) \<Longrightarrow> (\<lambda>a. if flg a then tgt a else home a) = tgt"
    by auto
  show ?thesis
    using idle far linear never b whole
    by (simp add: s1 poll_runtime_busy runtime_reports_def position_after_def
        cm_probing_cycle_callback_def observe_def cm_get_runtime_busy_def
        probing_init_valid probing_start_eq probing_backoff_eq probing_finish_eq
        probing_finalize_exit_eq moves_def emitted_def INPUT_INACTIVE_def)
qed

theorem probe_never_triggers_witness:
  "cm_straight_probe fp_ZERO_within target_z_down flags_z machine_at_rest = (STAT_OK, machine_probing_down) \<and>
   obs_busy busy_open_at_origin \<and>
   \<not> obs_busy idle_open_at_origin \<and>
   \<not> get_axis_vector_length (\<lambda>_. 0) target_z_down < MINIMUM_PROBE_TRAVEL \<and>
   \<not> flags_z AXIS_A \<and> \<not> flags_z AXIS_B \<and> \<not> flags_z AXIS_C \<and>
   obs_inputs idle_open_at_origin 5 = INPUT_INACTIVE \<and>
   map_option fst (poll_runtime kin_z (\<lambda>_. 0) machine_probing_down
       [busy_open_at_origin, idle_open_at_origin, idle_open_at_origin,
        busy_open_at_origin, busy_open_at_origin, idle_open_at_origin,
        idle_open_at_origin, idle_open_at_origin] machine_probing_down) =
     Some [STAT_EAGAIN, STAT_EAGAIN, STAT_EAGAIN, STAT_EAGAIN, STAT_EAGAIN, STAT_EAGAIN,
           STAT_EAGAIN, STAT_OK] \<and>
   map_option (cm_probe_state \<circ> snd) (poll_runtime kin_z (\<lambda>_. 0) machine_probing_down
       [busy_open_at_origin, idle_open_at_origin, idle_open_at_origin,
        busy_open_at_origin, busy_open_at_origin, idle_open_at_origin,
        idle_open_at_origin, idle_open_at_origin] machine_probing_down) = Some PROBE_FAILED \<and>
   map_option (cm_probe_results \<circ> snd) (poll_runtime kin_z (\<lambda>_. 0) machine_probing_down
       [busy_open_at_origin, idle_open_at_origin, idle_open_at_origin,
        busy_open_at_origin, busy_open_at_origin, idle_open_at_origin,
        idle_open_at_origin, idle_open_at_origin] machine_probing_down) = Some target_z_down \<and>
   map_option (moves \<circ> emitted machine_probing_down \<circ> snd) (poll_runtime kin_z (\<lambda>_. 0) machine_probing_down
       [busy_open_at_origin, idle_open_at_origin, idle_open_at_origin,
        busy_open_at_origin, busy_open_at_origin, idle_open_at_origin,
        idle_open_at_origin, idle_open_at_origin] machine_probing_down) =
     Some [CM_STRAIGHT_FEED target_z_down flags_z] \<and>
   map_option (cm_cycle_state \<circ> snd) (poll_runtime kin_z (\<lambda>_. 0) machine_probing_down
       [busy_open_at_origin, idle_open_at_origin, idle_open_at_origin,
        busy_open_at_origin, busy_open_at_origin, idle_open_at_origin,
        idle_open_at_origin, idle_open_at_origin] machine_probing_down) = Some CYCLE_OFF \<and>
   map_option (cm_coord_system \<circ> snd) (poll_runtime kin_z (\<lambda>_. 0) machine_probing_down
       [busy_open_at_origin, idle_open_at_origin, idle_open_at_origin,
        busy_open_at_origin, busy_open_at_origin, idle_open_at_origin,
        idle_open_at_origin, idle_open_at_origin] machine_probing_down) = Some G54 \<and>
   map_option (cm_distance_mode \<circ> snd) (poll_runtime kin_z (\<lambda>_. 0) machine_probing_down
       [busy_open_at_origin, idle_open_at_origin, idle_open_at_origin,
        busy_open_at_origin, busy_open_at_origin, idle_open_at_origin,
        idle_open_at_origin, idle_open_at_origin] machine_probing_down) = Some INCREMENTAL_MODE"
proof -
  have busy: "\<forall>b \<in> set ([busy_open_at_origin] @ [] @ [busy_open_at_origin, busy_open_at_origin] @ [] @ []).
      obs_busy b"
    by (simp add: busy_open_at_origin_def)
  have idle: "\<not> obs_busy idle_open_at_origin"
    by (simp add: idle_open_at_origin_def)
  have linear: "\<not> flags_z AXIS_A" "\<not> flags_z AXIS_B" "\<not> flags_z AXIS_C"
    by (simp_all add: flags_z_def)
  have never: "obs_inputs idle_open_at_origin 5 = INPUT_INACTIVE"
    by (simp add: idle_open_at_origin_def switch_open_def)
  have others: "\<forall>a. \<not> flags_z a \<longrightarrow> target_z_down a = 0"
    by (simp add: flags_z_def target_z_down_def)
  have before: "cm_coord_system machine_at_rest = G54"
    "cm_distance_mode machine_at_rest = INCREMENTAL_MODE"
    by (simp_all add: machine_at_rest_def)
  obtain s' where s': "(poll_runtime kin_z (\<lambda>_. 0) machine_probing_down
       [busy_open_at_origin, idle_open_at_origin, idle_open_at_origin,
        busy_open_at_origin, busy_open_at_origin, idle_open_at_origin,
        idle_open_at_origin, idle_open_at_origin] machine_probing_down) =
         Some ([STAT_EAGAIN, STAT_EAGAIN, STAT_EAGAIN, STAT_EAGAIN, STAT_EAGAIN, STAT_EAGAIN,
                STAT_EAGAIN, STAT_OK], s')"
    "cm_probe_state s' = PROBE_FAILED"
    "(\<forall>a. \<not> flags_z a \<longrightarrow> target_z_down a = 0) \<longrightarrow> cm_probe_results s' = target_z_down"
    "moves (emitted machine_probing_down s') = [CM_STRAIGHT_FEED target_z_down flags_z]"
    "cm_cycle_state s' = CYCLE_OFF"
    "cm_coord_system s' = cm_coord_system machine_at_rest"
    "cm_distance_mode s' = cm_distance_mode machine_at_rest"
    using probe_never_triggers [OF machine_probing_down_eq busy idle idle idle idle idle
        origin_far_from_target_z_down linear never never never, of kin_z]
    by (auto simp: numeral_eq_Suc)
  have results: "cm_probe_results s' = target_z_down"
    using s'(3) others by blast
  have "obs_busy busy_open_at_origin"
    by (simp add: busy_open_at_origin_def)
  then show ?thesis
    unfolding s'(1)
    using machine_probing_down_eq idle origin_far_from_target_z_down linear never
    by (simp add: s'(2,4,5,6,7) results before)
qed

subsection \<open>A switch already closed\<close>

text \<open>
  The switch closed when the start state reads it and open again when the
  finish state reads it: success is recorded at the start, and the cycle ends
  with the result marked failed.
\<close>

theorem probe_released_before_finish:
  "obs_inputs idle_closed_at_origin 5 = INPUT_ACTIVE \<and>
   map_option fst (poll kin_z [idle_open_at_origin, idle_closed_at_origin, idle_open_at_origin,
       idle_open_at_origin] machine_probing_down) =
     Some [STAT_EAGAIN, STAT_EAGAIN, STAT_EAGAIN, STAT_OK] \<and>
   map_option (cm_probe_state \<circ> snd) (poll kin_z [idle_open_at_origin, idle_closed_at_origin,
       idle_open_at_origin, idle_open_at_origin] machine_probing_down) = Some PROBE_FAILED"
proof -
  have far: "\<not> get_axis_vector_length (\<lambda>_. 0) (pb_target machine_probing_down) < MINIMUM_PROBE_TRAVEL"
    using origin_far_from_target_z_down
    by (simp add: machine_probing_down_def cm_straight_probe_def machine_at_rest_def
        fp_ZERO_within_def flags_z_def)
  show ?thesis
    using far
    by (simp add: cm_probing_cycle_callback_def observe_def cm_get_runtime_busy_def
        probing_init_valid probing_start_eq probing_finish_eq probing_finalize_exit_eq
        idle_open_at_origin_def idle_closed_at_origin_def switch_open_def switch_closed_def
        INPUT_INACTIVE_def INPUT_ACTIVE_def
        machine_probing_down_def cm_straight_probe_def machine_at_rest_def
        fp_ZERO_within_def flags_z_def)
qed

text \<open>
  C5, amended. An accepted request, a target far enough and on the linear axes
  only, four calls with the runtime idle, the switch not inactive when the
  start state reads it: after the second call success is recorded and the
  finish state is bound, with no backoff in between; if the input still reads
  active (1) when the finish state runs, the cycle ends with ok and the result
  marked succeeded, and no move was queued at all.
\<close>

theorem probe_already_triggered:
  assumes accepted: "cm_straight_probe fpz tgt flg s0 = (STAT_OK, s1)"
    and idle: "\<not> obs_busy o1" "\<not> obs_busy o2" "\<not> obs_busy o3" "\<not> obs_busy o4"
    and far: "\<not> get_axis_vector_length (obs_position o1) tgt < MINIMUM_PROBE_TRAVEL"
    and linear: "\<not> flg AXIS_A" "\<not> flg AXIS_B" "\<not> flg AXIS_C"
    and triggered: "obs_inputs o2 5 \<noteq> INPUT_INACTIVE"
    and still: "obs_inputs o3 5 = 1"
  shows "map_option fst (poll kin [o1, o2] s1) = Some [STAT_EAGAIN, STAT_EAGAIN] \<and>
         map_option (cm_probe_state \<circ> snd) (poll kin [o1, o2] s1) = Some PROBE_SUCCEEDED \<and>
         map_option (pb_func \<circ> snd) (poll kin [o1, o2] s1) = Some PROBING_FINISH \<and>
         map_option fst (poll kin [o1, o2, o3, o4] s1) =
           Some [STAT_EAGAIN, STAT_EAGAIN, STAT_EAGAIN, STAT_OK] \<and>
         map_option (cm_probe_state \<circ> snd) (poll kin [o1, o2, o3, o4] s1) = Some PROBE_SUCCEEDED \<and>
         map_option (moves \<circ> emitted s1 \<circ> snd) (poll kin [o1, o2, o3, o4] s1) = Some []"
proof -
  from accepted have s1: "s1 = s0\<lparr>pb_target := tgt, pb_flags := flg, cm_probe_results := (\<lambda>_. 0),
      cm_probe_state := PROBE_WAITING, pb_func := PROBING_INIT\<rparr>"
    by (auto simp: cm_straight_probe_def split: if_splits)
  show ?thesis
    using idle far linear triggered still
    by (simp add: s1 cm_probing_cycle_callback_def observe_def cm_get_runtime_busy_def
        probing_init_valid probing_start_eq probing_finish_eq
        probing_finalize_exit_eq moves_def emitted_def)
qed

theorem probe_already_triggered_witness:
  "cm_straight_probe fp_ZERO_within target_z_down flags_z machine_at_rest = (STAT_OK, machine_probing_down) \<and>
   \<not> obs_busy idle_open_at_origin \<and> \<not> obs_busy idle_closed_at_origin \<and>
   \<not> get_axis_vector_length (obs_position idle_open_at_origin) target_z_down < MINIMUM_PROBE_TRAVEL \<and>
   \<not> flags_z AXIS_A \<and> \<not> flags_z AXIS_B \<and> \<not> flags_z AXIS_C \<and>
   obs_inputs idle_closed_at_origin 5 \<noteq> INPUT_INACTIVE \<and>
   obs_inputs idle_closed_at_origin 5 = 1 \<and>
   map_option fst (poll kin_z [idle_open_at_origin, idle_closed_at_origin, idle_closed_at_origin,
       idle_closed_at_origin] machine_probing_down) =
     Some [STAT_EAGAIN, STAT_EAGAIN, STAT_EAGAIN, STAT_OK] \<and>
   map_option (cm_probe_state \<circ> snd) (poll kin_z [idle_open_at_origin, idle_closed_at_origin,
       idle_closed_at_origin, idle_closed_at_origin] machine_probing_down) = Some PROBE_SUCCEEDED \<and>
   map_option (moves \<circ> emitted machine_probing_down \<circ> snd) (poll kin_z [idle_open_at_origin,
       idle_closed_at_origin, idle_closed_at_origin, idle_closed_at_origin] machine_probing_down) =
     Some []"
proof -
  have idle: "\<not> obs_busy idle_open_at_origin" "\<not> obs_busy idle_closed_at_origin"
    by (simp_all add: idle_open_at_origin_def idle_closed_at_origin_def)
  have far: "\<not> get_axis_vector_length (obs_position idle_open_at_origin) target_z_down
      < MINIMUM_PROBE_TRAVEL"
    using origin_far_from_target_z_down by (simp add: idle_open_at_origin_def)
  have linear: "\<not> flags_z AXIS_A" "\<not> flags_z AXIS_B" "\<not> flags_z AXIS_C"
    by (simp_all add: flags_z_def)
  have triggered: "obs_inputs idle_closed_at_origin 5 \<noteq> INPUT_INACTIVE"
    by (simp add: idle_closed_at_origin_def switch_closed_def INPUT_INACTIVE_def INPUT_ACTIVE_def)
  have still: "obs_inputs idle_closed_at_origin 5 = 1"
    by (simp add: idle_closed_at_origin_def switch_closed_def INPUT_ACTIVE_def)
  show ?thesis
    using probe_already_triggered [OF machine_probing_down_eq idle(1) idle(2) idle(2) idle(2)
        far linear triggered still, of kin_z]
      machine_probing_down_eq idle far linear triggered still
    by simp
qed

subsection \<open>Backoff\<close>

text \<open>
  C6. The backoff state, when it reads the input as anything but inactive,
  marks success, flushes the queue and queues one straight feed to the forward
  kinematics of the latched encoder snapshot with the flags of the probe; when
  it reads the input as inactive it marks failure and queues no move. Either
  way the finish state is next.
\<close>

theorem probing_backoff_contact:
  "(gpio_input s (pb_probe_input s) \<noteq> INPUT_INACTIVE \<longrightarrow>
      fst (probing_backoff kin s) = STAT_EAGAIN \<and>
      cm_probe_state (snd (probing_backoff kin s)) = PROBE_SUCCEEDED \<and>
      emitted s (snd (probing_backoff kin s)) =
        [GPIO_READ_INPUT (pb_probe_input s), CM_QUEUE_FLUSH,
         CM_STRAIGHT_FEED (kin (encoder_snapshot s)) (pb_flags s)] \<and>
      pb_func (snd (probing_backoff kin s)) = PROBING_FINISH) \<and>
   (gpio_input s (pb_probe_input s) = INPUT_INACTIVE \<longrightarrow>
      fst (probing_backoff kin s) = STAT_EAGAIN \<and>
      cm_probe_state (snd (probing_backoff kin s)) = PROBE_FAILED \<and>
      moves (emitted s (snd (probing_backoff kin s))) = [] \<and>
      emitted s (snd (probing_backoff kin s)) = [GPIO_READ_INPUT (pb_probe_input s)] \<and>
      pb_func (snd (probing_backoff kin s)) = PROBING_FINISH)"
  by (simp add: probing_backoff_eq moves_def)

theorem probing_backoff_contact_witness:
  "gpio_input (observe idle_closed_at_origin (machine_at_rest\<lparr>pb_probe_input := 5\<rparr>))
     (pb_probe_input (observe idle_closed_at_origin (machine_at_rest\<lparr>pb_probe_input := 5\<rparr>)))
     \<noteq> INPUT_INACTIVE \<and>
   cm_probe_state (snd (probing_backoff kin_z
     (observe idle_closed_at_origin (machine_at_rest\<lparr>pb_probe_input := 5\<rparr>)))) = PROBE_SUCCEEDED \<and>
   gpio_input (observe idle_open_at_origin (machine_at_rest\<lparr>pb_probe_input := 5\<rparr>))
     (pb_probe_input (observe idle_open_at_origin (machine_at_rest\<lparr>pb_probe_input := 5\<rparr>)))
     = INPUT_INACTIVE \<and>
   cm_probe_state (snd (probing_backoff kin_z
     (observe idle_open_at_origin (machine_at_rest\<lparr>pb_probe_input := 5\<rparr>)))) = PROBE_FAILED \<and>
   moves (emitted (observe idle_open_at_origin (machine_at_rest\<lparr>pb_probe_input := 5\<rparr>))
     (snd (probing_backoff kin_z
        (observe idle_open_at_origin (machine_at_rest\<lparr>pb_probe_input := 5\<rparr>))))) = []"
proof -
  have closed: "gpio_input (observe idle_closed_at_origin (machine_at_rest\<lparr>pb_probe_input := 5\<rparr>))
     (pb_probe_input (observe idle_closed_at_origin (machine_at_rest\<lparr>pb_probe_input := 5\<rparr>)))
     \<noteq> INPUT_INACTIVE"
    by (simp add: observe_def idle_closed_at_origin_def switch_closed_def INPUT_INACTIVE_def
        INPUT_ACTIVE_def)
  have opened: "gpio_input (observe idle_open_at_origin (machine_at_rest\<lparr>pb_probe_input := 5\<rparr>))
     (pb_probe_input (observe idle_open_at_origin (machine_at_rest\<lparr>pb_probe_input := 5\<rparr>)))
     = INPUT_INACTIVE"
    by (simp add: observe_def idle_open_at_origin_def switch_open_def)
  show ?thesis
    using closed opened
      probing_backoff_contact [of "observe idle_closed_at_origin (machine_at_rest\<lparr>pb_probe_input := 5\<rparr>)" kin_z]
      probing_backoff_contact [of "observe idle_open_at_origin (machine_at_rest\<lparr>pb_probe_input := 5\<rparr>)" kin_z]
    by (simp add: moves_def)
qed

subsection \<open>The callback\<close>

text \<open>
  C7. Outside a probe cycle, and with none waiting, the callback does nothing.
  In a cycle or with one waiting, a busy runtime makes it return in-progress
  with the machine as it was, and an idle runtime makes it call the one
  function bound. So a call runs at most one state function, once.
\<close>

theorem callback_gated_on_idle:
  "(cm_cycle_state s \<noteq> CYCLE_PROBE \<and> cm_probe_state s \<noteq> PROBE_WAITING \<longrightarrow>
      cm_probing_cycle_callback kin s = Some (STAT_NOOP, s)) \<and>
   ((cm_cycle_state s = CYCLE_PROBE \<or> cm_probe_state s = PROBE_WAITING) \<and> runtime_busy s \<longrightarrow>
      cm_probing_cycle_callback kin s = Some (STAT_EAGAIN, s)) \<and>
   ((cm_cycle_state s = CYCLE_PROBE \<or> cm_probe_state s = PROBE_WAITING) \<and> \<not> runtime_busy s \<longrightarrow>
      cm_probing_cycle_callback kin s = call_pb_func kin (pb_func s) s) \<and>
   cm_probing_cycle_callback kin s \<in>
     {Some (STAT_NOOP, s), Some (STAT_EAGAIN, s), None,
      Some (probing_init s), Some (probing_start s), Some (probing_backoff kin s),
      Some (probing_finish s), Some (probing_finalize_exit s)}"
  by (cases "pb_func s") (auto simp: cm_probing_cycle_callback_def cm_get_runtime_busy_def)

theorem callback_gated_on_idle_witness:
  "cm_cycle_state machine_at_rest \<noteq> CYCLE_PROBE \<and> cm_probe_state machine_at_rest \<noteq> PROBE_WAITING \<and>
   cm_probing_cycle_callback kin_z machine_at_rest = Some (STAT_NOOP, machine_at_rest) \<and>
   cm_probe_state (observe busy_open_at_origin machine_probing_down) = PROBE_WAITING \<and>
   runtime_busy (observe busy_open_at_origin machine_probing_down) \<and>
   cm_probing_cycle_callback kin_z (observe busy_open_at_origin machine_probing_down) =
     Some (STAT_EAGAIN, observe busy_open_at_origin machine_probing_down) \<and>
   cm_probe_state (observe idle_open_at_origin machine_probing_down) = PROBE_WAITING \<and>
   \<not> runtime_busy (observe idle_open_at_origin machine_probing_down) \<and>
   cm_probing_cycle_callback kin_z (observe idle_open_at_origin machine_probing_down) =
     Some (probing_init (observe idle_open_at_origin machine_probing_down))"
proof -
  have off: "cm_cycle_state machine_at_rest \<noteq> CYCLE_PROBE"
    "cm_probe_state machine_at_rest \<noteq> PROBE_WAITING"
    by (simp_all add: machine_at_rest_def)
  have waiting: "cm_probe_state (observe busy_open_at_origin machine_probing_down) = PROBE_WAITING"
    "cm_probe_state (observe idle_open_at_origin machine_probing_down) = PROBE_WAITING"
    "pb_func (observe idle_open_at_origin machine_probing_down) = PROBING_INIT"
    by (simp_all add: observe_def machine_probing_down_def cm_straight_probe_def
        machine_at_rest_def fp_ZERO_within_def flags_z_def)
  have busy: "runtime_busy (observe busy_open_at_origin machine_probing_down)"
    "\<not> runtime_busy (observe idle_open_at_origin machine_probing_down)"
    by (simp_all add: observe_def busy_open_at_origin_def idle_open_at_origin_def)
  show ?thesis
    using off waiting busy
      callback_gated_on_idle [of machine_at_rest kin_z]
      callback_gated_on_idle [of "observe busy_open_at_origin machine_probing_down" kin_z]
      callback_gated_on_idle [of "observe idle_open_at_origin machine_probing_down" kin_z]
    by simp
qed

subsection \<open>The result comes from the reading at the finish\<close>

text \<open>
  C8. Whatever probe state was recorded before, the finish state records and
  reports success exactly when the input it reads then equals 1; an input that
  reads inactive then gives a failed result even after success was recorded.
\<close>

theorem probing_finish_fresh_read:
  "cm_probe_state (snd (probing_finish (s\<lparr>cm_probe_state := recorded\<rparr>))) =
     (if gpio_input s (pb_probe_input s) = 1 then PROBE_SUCCEEDED else PROBE_FAILED) \<and>
   emitted (s\<lparr>cm_probe_state := recorded\<rparr>) (snd (probing_finish (s\<lparr>cm_probe_state := recorded\<rparr>))) =
     [GPIO_READ_INPUT (pb_probe_input s),
      PRINTF_PRB (if gpio_input s (pb_probe_input s) = 1 then PROBE_SUCCEEDED else PROBE_FAILED)
        (prb_fields (s\<lparr>cm_probe_results := absolute_position s\<rparr>))] \<and>
   (gpio_input s (pb_probe_input s) = INPUT_INACTIVE \<longrightarrow>
      cm_probe_state (snd (probing_finish (s\<lparr>cm_probe_state := PROBE_SUCCEEDED\<rparr>))) = PROBE_FAILED)"
  by (simp add: probing_finish_eq prb_fields_def INPUT_INACTIVE_def)

theorem probing_finish_fresh_read_witness:
  "gpio_input machine_at_rest (pb_probe_input machine_at_rest) = INPUT_INACTIVE \<and>
   cm_probe_state (snd (probing_finish (machine_at_rest\<lparr>cm_probe_state := PROBE_SUCCEEDED\<rparr>))) =
     PROBE_FAILED"
proof -
  have inactive: "gpio_input machine_at_rest (pb_probe_input machine_at_rest) = INPUT_INACTIVE"
    by (simp add: machine_at_rest_def INPUT_INACTIVE_def)
  show ?thesis
    using inactive probing_finish_fresh_read [where s = machine_at_rest and recorded = PROBE_SUCCEEDED]
    by blast
qed

subsection \<open>The probe input\<close>

text \<open>
  C9. From any machine the initialisation leaves input 5 as the probe input
  and in probing mode, and puts no other input into probing mode. With input 5
  as the probe input, the start, backoff, finish and exit states keep it, and
  every input they read or disarm is input 5.
\<close>

theorem probe_input_hard_coded:
  "pb_probe_input (snd (probing_init s)) = 5 \<and>
   gpio_probing_mode (snd (probing_init s)) 5 \<and>
   armed_inputs (emitted s (snd (probing_init s))) = [5] \<and>
   (pb_probe_input s = 5 \<longrightarrow>
      (\<forall>r \<in> {probing_start s, probing_backoff kin s, probing_finish s, probing_finalize_exit s}.
         pb_probe_input (snd r) = 5 \<and> set (gpio_inputs_used (emitted s (snd r))) = {5}))"
proof -
  obtain es where es: "trace (snd (probing_init s)) =
      trace s @ es @ [GPIO_SET_PROBING_MODE 5 True, CM_SPINDLE_OPTIONAL_PAUSE True]"
      "armed_inputs es = []"
    using probing_init_trace by blast
  have "armed_inputs (emitted s (snd (probing_init s))) = [5]"
    by (simp add: emitted_def es armed_inputs_append)
  moreover have "pb_probe_input s = 5 \<longrightarrow>
      (\<forall>r \<in> {probing_start s, probing_backoff kin s, probing_finish s, probing_finalize_exit s}.
         pb_probe_input (snd r) = 5 \<and> set (gpio_inputs_used (emitted s (snd r))) = {5})"
    by (simp add: probing_start_eq probing_backoff_eq probing_finish_eq probing_finalize_exit_eq)
  ultimately show ?thesis
    by (simp add: probing_init_arms_five)
qed

theorem probe_input_hard_coded_witness:
  "pb_probe_input (snd (probing_init machine_probing_down)) = 5 \<and>
   pb_probe_input (snd (probing_start (snd (probing_init machine_probing_down)))) = 5 \<and>
   set (gpio_inputs_used (emitted (snd (probing_init machine_probing_down))
     (snd (probing_start (snd (probing_init machine_probing_down)))))) = {5} \<and>
   set (gpio_inputs_used (emitted (snd (probing_init machine_probing_down))
     (snd (probing_finalize_exit (snd (probing_init machine_probing_down)))))) = {5}"
proof -
  have five: "pb_probe_input (snd (probing_init machine_probing_down)) = 5"
    using probe_input_hard_coded [of machine_probing_down kin_z] by simp
  show ?thesis
    using five probe_input_hard_coded [of "snd (probing_init machine_probing_down)" kin_z]
    by simp
qed

subsection \<open>The size of the pool\<close>

text \<open>
  C10. The planner buffer pool has exactly 28 slots; that is at least the
  suggested minimum of 12 and within the limit of 255, so the count of free
  slots of an empty pool fits the byte that holds it.
\<close>

theorem planner_buffer_pool_size:
  "PLANNER_BUFFER_POOL_SIZE = 28 \<and> 12 \<le> PLANNER_BUFFER_POOL_SIZE \<and>
   PLANNER_BUFFER_POOL_SIZE \<le> 255 \<and>
   unat buffers_available_when_empty = PLANNER_BUFFER_POOL_SIZE"
  by (simp add: PLANNER_BUFFER_POOL_SIZE_def buffers_available_when_empty_def)

end
